theory Spec2Isabelle
  imports Main
begin

unbundle bit_operations_syntax

section \<open>Data model of \<open>tfatool/command.py\<close>\<close>

text \<open>
  Python's unbounded integers are \<open>int\<close>; on \<open>int\<close> the operations \<open>AND\<close>,
  \<open>push_bit\<close> and \<open>drop_bit\<close> are Python's \<open>&\<close>, \<open><<\<close> and \<open>>>\<close>
  (two's complement, arithmetic shift). Text is \<open>string\<close>, one \<open>char\<close> per code
  point below 256. A leading underscore is not allowed in a constant's name, so
  \<open>_decode_attribute\<close> is \<open>decode_attribute\<close>, and likewise for the other private
  functions.
\<close>

record AttrInfo =
  archive :: bool
  directly :: bool
  volume :: bool
  system_file :: bool
  hidden_file :: bool
  read_only :: bool

text \<open>
  \<open>_decode_attribute\<close>: \<open>bit_positions = reversed(range(6))\<close>, one flag per
  position, and \<open>AttrInfo(*bit_flags)\<close> takes the six flags in that order.
\<close>

definition decode_attribute :: "int \<Rightarrow> AttrInfo" where
  "decode_attribute attr_val =
     (let bit_positions = rev [0..<6];
          bit_flags = map (\<lambda>b. (attr_val AND push_bit b 1) \<noteq> 0) bit_positions
      in \<lparr>archive = bit_flags ! 0, directly = bit_flags ! 1, volume = bit_flags ! 2,
          system_file = bit_flags ! 3, hidden_file = bit_flags ! 4,
          read_only = bit_flags ! 5\<rparr>)"

subsection \<open>Errors\<close>

text \<open>
  Every exception the module can raise is a value. The three \<open>ValueError\<close>
  constructors are Python's one \<open>ValueError\<close> class, told apart by where it is raised:
  \<open>int(s)\<close> on a string that is no integer literal, the \<open>datetime\<close> constructor
  under \<open>arrow.get\<close> on a field out of range, and the explicit \<open>raise\<close> of
  \<open>get_wifi_mode\<close>. \<open>IOError\<close> carries its message.
\<close>

datatype error =
    ValueError_literal string
  | ValueError_datetime
  | ValueError_mode int
  | IOError string

definition is_ValueError :: "error \<Rightarrow> bool" where
  "is_ValueError e = (case e of IOError _ \<Rightarrow> False | _ \<Rightarrow> True)"

subsection \<open>Timestamps\<close>

text \<open>
  \<open>arrow.get(year, month, day, hour, minute, second, tzinfo=...)\<close> passes its
  arguments to the \<open>datetime\<close> constructor, which raises \<open>ValueError\<close> unless
  1 \<le> year \<le> 9999, 1 \<le> month \<le> 12, 1 \<le> day \<le> days in that month, hour \<le> 23,
  minute \<le> 59 and second \<le> 59. Without \<open>tzinfo\<close> the timestamp is in UTC.
\<close>

datatype tz = Local | UTC

record timestamp =
  ts_year :: int
  ts_month :: int
  ts_day :: int
  ts_hour :: int
  ts_minute :: int
  ts_second :: int
  tzinfo :: tz

definition is_leap :: "int \<Rightarrow> bool" where
  "is_leap y = (y mod 4 = 0 \<and> (y mod 100 \<noteq> 0 \<or> y mod 400 = 0))"

definition days_in_month :: "int \<Rightarrow> int \<Rightarrow> int" where
  "days_in_month y m =
     (if m = 2 then (if is_leap y then 29 else 28)
      else if m = 4 \<or> m = 6 \<or> m = 9 \<or> m = 11 then 30 else 31)"

definition arrow_get :: "int \<Rightarrow> int \<Rightarrow> int \<Rightarrow> int \<Rightarrow> int \<Rightarrow> int \<Rightarrow> tz \<Rightarrow> error + timestamp" where
  "arrow_get y mo d h mi s z =
     (if 1 \<le> y \<and> y \<le> 9999 \<and> 1 \<le> mo \<and> mo \<le> 12 \<and> 1 \<le> d \<and> d \<le> days_in_month y mo
         \<and> 0 \<le> h \<and> h \<le> 23 \<and> 0 \<le> mi \<and> mi \<le> 59 \<and> 0 \<le> s \<and> s \<le> 59
      then Inr \<lparr>ts_year = y, ts_month = mo, ts_day = d, ts_hour = h, ts_minute = mi, ts_second = s, tzinfo = z\<rparr>
      else Inl ValueError_datetime)"

text \<open>
  \<open>_decode_time\<close>. The six assignments before the \<open>try\<close> are \<open>decode_fields\<close>;
  the \<open>except ValueError\<close> branch clamps year, month and day and calls
  \<open>arrow.get\<close> again, outside any handler.
\<close>

definition decode_fields :: "int \<Rightarrow> int \<Rightarrow> int \<times> int \<times> int \<times> int \<times> int \<times> int" where
  "decode_fields date_val time_val =
     (let year = drop_bit 9 date_val + 1980;
          month = drop_bit 5 (date_val AND push_bit 5 15);
          day = date_val AND 31;
          hour = drop_bit 11 time_val;
          minute = drop_bit 5 time_val AND 63;
          second = (time_val AND 31) * 2
      in (year, month, day, hour, minute, second))"

definition decode_time :: "int \<Rightarrow> int \<Rightarrow> error + timestamp" where
  "decode_time date_val time_val =
     (case decode_fields date_val time_val of (year, month, day, hour, minute, second) \<Rightarrow>
        (case arrow_get year month day hour minute second Local of
           Inr decoded \<Rightarrow> Inr decoded
         | Inl e \<Rightarrow>
             if is_ValueError e then
               (let year = max 1980 year;
                    month = min (max 1 month) 12;
                    day = max 1 day
                in arrow_get year month day hour minute second UTC)
             else Inl e))"

subsection \<open>Strings\<close>

text \<open>
  \<open>s.split(",")\<close> and \<open>s.split("\r\n")\<close>: Python's split on a non-empty separator,
  scanning from the left; the result always has one more element than there are
  separators found. \<open>split_char\<close> is the split on a one-character separator.
\<close>

fun split_char :: "char \<Rightarrow> string \<Rightarrow> string list" where
  "split_char sep [] = [[]]"
| "split_char sep (c # cs) =
     (if c = sep then [] # split_char sep cs
      else (case split_char sep cs of w # ws \<Rightarrow> (c # w) # ws | [] \<Rightarrow> [[c]]))"

fun split_crlf :: "string \<Rightarrow> string list" where
  "split_crlf [] = [[]]"
| "split_crlf [c] = [[c]]"
| "split_crlf (c # d # cs) =
     (if c = CHR 0x0D \<and> d = CHR 0x0A then [] # split_crlf cs
      else (case split_crlf (d # cs) of w # ws \<Rightarrow> (c # w) # ws | [] \<Rightarrow> [[c]]))"

definition startswith_slash :: "string \<Rightarrow> bool" where
  "startswith_slash s = (case s of [] \<Rightarrow> False | c # _ \<Rightarrow> c = CHR ''/'')"

text \<open>
  \<open>int(s)\<close> on a string, base 10: surrounding whitespace is stripped, one sign is
  allowed, then decimal digits, where single underscores may stand between digits.
  Anything else raises \<open>ValueError\<close>. (The interpreter's configurable limit on the
  number of digits is not modelled.)
\<close>

definition py_isspace :: "char \<Rightarrow> bool" where
  "py_isspace c = (let n = (of_char c :: nat) in
     (9 \<le> n \<and> n \<le> 13) \<or> (28 \<le> n \<and> n \<le> 32) \<or> n = 133 \<or> n = 160)"

definition py_isdigit :: "char \<Rightarrow> bool" where
  "py_isdigit c = (let n = (of_char c :: nat) in 48 \<le> n \<and> n \<le> 57)"

definition strip :: "string \<Rightarrow> string" where
  "strip s = rev (dropWhile py_isspace (rev (dropWhile py_isspace s)))"

fun parse_digits :: "bool \<Rightarrow> int \<Rightarrow> string \<Rightarrow> int option" where
  "parse_digits after_digit acc [] = (if after_digit then Some acc else None)"
| "parse_digits after_digit acc (c # cs) =
     (if py_isdigit c then parse_digits True (acc * 10 + (of_char c - 48)) cs
      else if c = CHR ''_'' \<and> after_digit then parse_digits False acc cs
      else None)"

definition py_int :: "string \<Rightarrow> error + int" where
  "py_int s =
     (let body = strip s;
          (negative, digits) =
            (case body of
               c # cs \<Rightarrow> if c = CHR ''-'' then (True, cs)
                         else if c = CHR ''+'' then (False, cs) else (False, body)
             | [] \<Rightarrow> (False, body))
      in case parse_digits False 0 digits of
           None \<Rightarrow> Inl (ValueError_literal s)
         | Some n \<Rightarrow> Inr (if negative then - n else n))"

subsection \<open>POSIX paths\<close>

text \<open>
  \<open>str(PurePosixPath(directory, filename))\<close>. \<open>splitroot\<close> takes the root off one
  part: exactly two leading slashes are kept as a root of their own, any other
  number of them is the root \<open>/\<close>. The parts are read from the last one backwards and
  reading stops at the first part that has a root; empty components and \<open>.\<close> are
  dropped. The string of a path with no root and no component is \<open>.\<close>.
\<close>

definition splitroot :: "string \<Rightarrow> string \<times> string" where
  "splitroot part =
     (if startswith_slash part then
        (let stripped_part = dropWhile (\<lambda>c. c = CHR ''/'') part
         in if length part - length stripped_part = 2 then (''//'', stripped_part)
            else (''/'', stripped_part))
      else ([], part))"

definition components :: "string \<Rightarrow> string list" where
  "components rel = filter (\<lambda>x. x \<noteq> [] \<and> x \<noteq> ''.'') (split_char CHR ''/'' rel)"

fun parse_parts_rev :: "string list \<Rightarrow> string \<times> string list" where
  "parse_parts_rev [] = ([], [])"
| "parse_parts_rev (part # earlier) =
     (if part = [] then parse_parts_rev earlier
      else (case splitroot part of (root, rel) \<Rightarrow>
        if root \<noteq> [] then (root, components rel)
        else (case parse_parts_rev earlier of (root', parsed) \<Rightarrow>
                (root', parsed @ components rel))))"

definition parse_parts :: "string list \<Rightarrow> string \<times> string list" where
  "parse_parts parts = parse_parts_rev (rev parts)"

fun join_slash :: "string list \<Rightarrow> string" where
  "join_slash [] = []"
| "join_slash [x] = x"
| "join_slash (x # y # ys) = x @ ''/'' @ join_slash (y # ys)"

definition PurePosixPath_str :: "string list \<Rightarrow> string" where
  "PurePosixPath_str parts =
     (case parse_parts parts of (root, parsed) \<Rightarrow>
        (let s = root @ join_slash parsed in if s = [] then ''.'' else s))"


subsection \<open>Listing entries\<close>

text \<open>
  \<open>FileInfo\<close> and \<open>RawFileInfo\<close> are the named tuples of \<open>tfatool.info\<close>, with the
  fields in the order the constructor calls of this module give them. The field
  \<open>size\<close> is \<open>size_bytes\<close> here.
\<close>

record FileInfo =
  directory :: string
  filename :: string
  path :: string
  size_bytes :: int
  attribute :: AttrInfo
  datetime :: timestamp

record RawFileInfo =
  raw_directory :: string
  raw_filename :: string
  raw_path :: string
  raw_size :: int

text \<open>
  A generator that is consumed to its end has yielded a list of values and then either
  stopped or raised: the second component is the exception, if any. The values before
  the exception have been yielded.
\<close>

type_synonym 'a generator = "'a list \<times> error option"

text \<open>
  One line of \<open>_split_file_list\<close> that has six groups: the four integers are parsed
  in order when \<open>remaining\<close> is unpacked, then the time and the attribute are decoded
  and the path is joined.
\<close>

definition decode_groups :: "string list \<Rightarrow> error + FileInfo" where
  "decode_groups groups =
     (let dir_field = groups ! 0; name_field = groups ! 1; remaining = drop 2 groups in
      case py_int (remaining ! 0) of Inl e \<Rightarrow> Inl e | Inr size_val \<Rightarrow>
      case py_int (remaining ! 1) of Inl e \<Rightarrow> Inl e | Inr attr_val \<Rightarrow>
      case py_int (remaining ! 2) of Inl e \<Rightarrow> Inl e | Inr date_val \<Rightarrow>
      case py_int (remaining ! 3) of Inl e \<Rightarrow> Inl e | Inr time_val \<Rightarrow>
      case decode_time date_val time_val of Inl e \<Rightarrow> Inl e | Inr timeinfo \<Rightarrow>
        Inr \<lparr>directory = dir_field, filename = name_field,
             path = PurePosixPath_str [dir_field, name_field],
             size_bytes = size_val, attribute = decode_attribute attr_val,
             datetime = timeinfo\<rparr>)"

fun split_file_list_lines :: "string list \<Rightarrow> FileInfo generator" where
  "split_file_list_lines [] = ([], None)"
| "split_file_list_lines (line # lines) =
     (let groups = split_char CHR '','' line in
      if length groups = 6 then
        (case decode_groups groups of
           Inl e \<Rightarrow> ([], Some e)
         | Inr f \<Rightarrow> (case split_file_list_lines lines of (fs, r) \<Rightarrow> (f # fs, r)))
      else split_file_list_lines lines)"

definition split_file_list :: "string \<Rightarrow> FileInfo generator" where
  "split_file_list text = split_file_list_lines (split_crlf text)"

definition decode_groups_raw :: "string list \<Rightarrow> error + RawFileInfo" where
  "decode_groups_raw groups =
     (let dir_field = groups ! 0; name_field = groups ! 1; size_field = groups ! 2 in
      case py_int size_field of Inl e \<Rightarrow> Inl e | Inr n \<Rightarrow>
        Inr \<lparr>raw_directory = dir_field, raw_filename = name_field,
             raw_path = PurePosixPath_str [dir_field, name_field], raw_size = n\<rparr>)"

fun split_file_list_raw_lines :: "string list \<Rightarrow> RawFileInfo generator" where
  "split_file_list_raw_lines [] = ([], None)"
| "split_file_list_raw_lines (line # lines) =
     (let groups = split_char CHR '','' line in
      if length groups = 6 then
        (case decode_groups_raw groups of
           Inl e \<Rightarrow> ([], Some e)
         | Inr f \<Rightarrow> (case split_file_list_raw_lines lines of (fs, r) \<Rightarrow> (f # fs, r)))
      else split_file_list_raw_lines lines)"

definition split_file_list_raw :: "string \<Rightarrow> RawFileInfo generator" where
  "split_file_list_raw text = split_file_list_raw_lines (split_crlf text)"

subsection \<open>The command API\<close>

text \<open>
  \<open>_get\<close> sends the request through \<open>tfatool.cgi\<close> and the functions below read
  \<open>response.text\<close>; each takes that text as its argument. A filter is a predicate on
  entries, and \<open>all(filt(f) for filt in filters)\<close> is \<open>list_all\<close>.
\<close>

definition list_files :: "(FileInfo \<Rightarrow> bool) list \<Rightarrow> string \<Rightarrow> FileInfo generator" where
  "list_files filters text =
     (case split_file_list text of (files, r) \<Rightarrow>
        (filter (\<lambda>f. \<not> directly (attribute f) \<and> list_all (\<lambda>filt. filt f) filters) files, r))"

definition list_files_raw :: "(RawFileInfo \<Rightarrow> bool) list \<Rightarrow> string \<Rightarrow> RawFileInfo generator" where
  "list_files_raw filters text =
     (case split_file_list_raw text of (files, r) \<Rightarrow>
        (filter (\<lambda>f. list_all (\<lambda>filt. filt f) filters) files, r))"

text \<open>
  \<open>{f.filename: f for f in files}\<close>: the entries are stored in the order they are
  yielded, a later one replacing an earlier one under the same key; an exception of
  the generator ends the comprehension and no dictionary is returned.
\<close>

definition map_files :: "(FileInfo \<Rightarrow> bool) list \<Rightarrow> string \<Rightarrow> error + (string \<rightharpoonup> FileInfo)" where
  "map_files filters text =
     (case list_files filters text of
        (files, None) \<Rightarrow> Inr (foldl (\<lambda>m f. m(filename f \<mapsto> f)) Map.empty files)
      | (files, Some e) \<Rightarrow> Inl e)"

definition map_files_raw :: "(RawFileInfo \<Rightarrow> bool) list \<Rightarrow> string \<Rightarrow> error + (string \<rightharpoonup> RawFileInfo)" where
  "map_files_raw filters text =
     (case list_files_raw filters text of
        (files, None) \<Rightarrow> Inr (foldl (\<lambda>m f. m(raw_filename f \<mapsto> f)) Map.empty files)
      | (files, Some e) \<Rightarrow> Inl e)"

definition count_files :: "string \<Rightarrow> error + int" where
  "count_files text = py_int text"

definition memory_changed :: "string \<Rightarrow> error + bool" where
  "memory_changed text =
     (case py_int text of
        Inr n \<Rightarrow> Inr (n = 1)
      | Inl e \<Rightarrow>
          if is_ValueError e
          then Inl (IOError ''Likely no FlashAir connection, memory changed CGI command failed'')
          else Inl e)"

text \<open>
  \<open>get_wifi_mode\<close>. The enumerations \<open>WifiMode\<close> and \<open>WifiModeOnBoot\<close> are declared
  in \<open>tfatool.info\<close>; they are taken as the lists of their members in declaration
  order, with \<open>mode_value\<close> the function from a member to its integer.
\<close>

definition get_wifi_mode :: "('m \<Rightarrow> int) \<Rightarrow> 'm list \<Rightarrow> 'm list \<Rightarrow> string \<Rightarrow> error + 'm" where
  "get_wifi_mode mode_value WifiMode WifiModeOnBoot text =
     (case py_int text of
        Inl e \<Rightarrow> Inl e
      | Inr v \<Rightarrow>
          (let all_modes = WifiMode @ WifiModeOnBoot in
           case find (\<lambda>mode. mode_value mode = v) all_modes of
             Some mode \<Rightarrow> Inr mode
           | None \<Rightarrow> Inl (ValueError_mode v)))"


subsection \<open>Recursive listing\<close>

text \<open>
  \<open>list_files_recursive\<close> sends one request per iteration of its \<open>while\<close> loop;
  the device is the function from the requested directory to the response text. The
  loop may go on for ever, so it runs on fuel, one unit per iteration, and what it has
  done is a record: the directories requested, in order, the entries yielded, in
  order, and how it ended (\<open>Running\<close>: out of fuel with directories left to scan).
\<close>

datatype outcome = Finished | Raised error | Running

record traversal =
  requests :: "string list"
  yielded :: "FileInfo list"
  outcome :: outcome

text \<open>The path appended to \<open>dirs_to_scan\<close> for a directory entry.\<close>

definition subdir_path :: "FileInfo \<Rightarrow> string" where
  "subdir_path fileinfo =
     (if startswith_slash (path fileinfo) then path fileinfo
      else CHR ''/'' # path fileinfo)"

text \<open>The entry a file entry is replaced by before the filters see it.\<close>

definition normalize :: "FileInfo \<Rightarrow> FileInfo" where
  "normalize fileinfo =
     (if directory fileinfo \<noteq> [] \<and> \<not> startswith_slash (directory fileinfo) then
        \<lparr>directory = CHR ''/'' # directory fileinfo,
         filename = filename fileinfo,
         path = (if \<not> startswith_slash (path fileinfo) then CHR ''/'' # path fileinfo
                 else path fileinfo),
         size_bytes = size_bytes fileinfo,
         attribute = attribute fileinfo,
         datetime = datetime fileinfo\<rparr>
      else fileinfo)"

text \<open>
  The \<open>for\<close> loop over one listing: the queue after it and the entries it yields.
\<close>

fun scan_entries ::
  "(FileInfo \<Rightarrow> bool) list \<Rightarrow> FileInfo list \<Rightarrow> string list \<Rightarrow> string list \<times> FileInfo list" where
  "scan_entries filters [] dirs_to_scan = (dirs_to_scan, [])"
| "scan_entries filters (fileinfo # rest) dirs_to_scan =
     (if directly (attribute fileinfo) then
        scan_entries filters rest (dirs_to_scan @ [subdir_path fileinfo])
      else
        (case scan_entries filters rest dirs_to_scan of (dirs', ys) \<Rightarrow>
           (dirs', if list_all (\<lambda>filt. filt (normalize fileinfo)) filters
                   then normalize fileinfo # ys else ys)))"

fun scan_dirs ::
  "nat \<Rightarrow> (string \<Rightarrow> string) \<Rightarrow> (FileInfo \<Rightarrow> bool) list \<Rightarrow> string list \<Rightarrow> traversal" where
  "scan_dirs fuel device filters [] =
     \<lparr>requests = [], yielded = [], outcome = Finished\<rparr>"
| "scan_dirs 0 device filters (current_dir # dirs_to_scan) =
     \<lparr>requests = [], yielded = [], outcome = Running\<rparr>"
| "scan_dirs (Suc fuel) device filters (current_dir # dirs_to_scan) =
     (case split_file_list (device current_dir) of (files, r) \<Rightarrow>
      case scan_entries filters files dirs_to_scan of (dirs', ys) \<Rightarrow>
        (case r of
           Some e \<Rightarrow> \<lparr>requests = [current_dir], yielded = ys, outcome = Raised e\<rparr>
         | None \<Rightarrow>
             (let t = scan_dirs fuel device filters dirs' in
              \<lparr>requests = current_dir # requests t, yielded = ys @ yielded t,
               outcome = outcome t\<rparr>)))"

definition list_files_recursive ::
  "nat \<Rightarrow> (string \<Rightarrow> string) \<Rightarrow> (FileInfo \<Rightarrow> bool) list \<Rightarrow> string \<Rightarrow> traversal" where
  "list_files_recursive fuel device filters remote_dir =
     scan_dirs fuel device filters
       [if \<not> startswith_slash remote_dir then CHR ''/'' # remote_dir else remote_dir]"

text \<open>
  The directories a listing enqueues and the entries it yields, and the order of a
  traversal level by level: the directories of one level, then those their listings
  enqueue, in the same order.
\<close>

definition children :: "(string \<Rightarrow> string) \<Rightarrow> string \<Rightarrow> string list" where
  "children device d =
     map subdir_path (filter (\<lambda>f. directly (attribute f)) (fst (split_file_list (device d))))"

definition files_of ::
  "(string \<Rightarrow> string) \<Rightarrow> (FileInfo \<Rightarrow> bool) list \<Rightarrow> string \<Rightarrow> FileInfo list" where
  "files_of device filters d =
     filter (\<lambda>f. list_all (\<lambda>filt. filt f) filters)
       (map normalize (filter (\<lambda>f. \<not> directly (attribute f)) (fst (split_file_list (device d)))))"

fun level_order :: "nat \<Rightarrow> (string \<Rightarrow> string) \<Rightarrow> string list \<Rightarrow> string list" where
  "level_order 0 device level = []"
| "level_order (Suc k) device level =
     level @ level_order k device (concat (map (children device) level))"

text \<open>A card with one file and one directory at its root, and one file in the directory.\<close>

definition crlf :: string where
  "crlf = [CHR 0x0D, CHR 0x0A]"

definition example_card :: "string \<Rightarrow> string" where
  "example_card d =
     (if d = ''/'' then
        ''WLANSD_FILELIST'' @ crlf @ '',a.jpg,7,32,33,0'' @ crlf @ '',DCIM,0,16,33,0'' @ crlf
      else if d = ''/DCIM'' then
        ''WLANSD_FILELIST'' @ crlf @ ''/DCIM,b.jpg,9,32,33,0'' @ crlf
      else ''WLANSD_FILELIST'' @ crlf)"


section \<open>Attribute decoding\<close>

lemma rev_upt_6: "rev [0..<6] = [5, 4, 3, 2, 1, 0::nat]"
  by (simp add: upt_rec)

text \<open>
  C6. For every attribute value, \<open>_decode_attribute\<close> expands it most-significant bit
  first: archive is bit 5, directly bit 4, volume bit 3, system_file bit 2, hidden_file
  bit 1 and read_only bit 0. The value \<open>0b100000\<close> gives archive alone, the value
  \<open>0b000001\<close> gives read_only alone.
\<close>

theorem decode_attribute_bits:
  "decode_attribute a =
     \<lparr>archive = bit a 5, directly = bit a 4, volume = bit a 3,
      system_file = bit a 2, hidden_file = bit a 1, read_only = bit a 0\<rparr>
   \<and> decode_attribute 32 =
     \<lparr>archive = True, directly = False, volume = False,
      system_file = False, hidden_file = False, read_only = False\<rparr>
   \<and> decode_attribute 1 =
     \<lparr>archive = False, directly = False, volume = False,
      system_file = False, hidden_file = False, read_only = True\<rparr>"
proof -
  have gen: "\<And>x::int. decode_attribute x =
     \<lparr>archive = bit x 5, directly = bit x 4, volume = bit x 3,
      system_file = bit x 2, hidden_file = bit x 1, read_only = bit x 0\<rparr>"
    unfolding decode_attribute_def Let_def rev_upt_6
    by (simp add: bit_iff_and_push_bit_not_eq_0 [symmetric] del: push_bit_of_1)
  have b32: "bit (32::int) n \<longleftrightarrow> n = 5" for n
    using bit_exp_iff [where ?'a = int, of 5 n] by auto
  have b1: "bit (1::int) n \<longleftrightarrow> n = 0" for n
    by (simp add: bit_1_iff)
  show ?thesis
    by (simp add: gen b32 b1)
qed

end
